theory Spec2Isabelle
  imports Main "HOL-Library.Sublist"
begin

section \<open>The image checker of image\_checker.py\<close>

text \<open>
  The program fetches one page, checks every image the page refers to, mails a summary of
  the broken ones and sleeps for an hour. Everything it does goes through a library
  (requests, BeautifulSoup, PIL, smtplib, logging, time), so the embedding has two parts:
  \<^item> the outside world, a record \<open>env\<close> of what each library call answers, and a trace
    \<open>world\<close> of the calls and log lines made so far;
  \<^item> the methods of \<open>ImageChecker\<close> and \<open>main\<close>, written as functions that take the trace
    and return it extended, with every \<open>raise\<close> as a value \<open>Inl e\<close>.
  An answer of the outside world may depend on the whole trace before the call: the same
  address fetched twice need not answer twice the same.
\<close>

subsection \<open>Exceptions, log lines, library values\<close>

text \<open>
  \<open>Exception m\<close> is any instance of Python's class \<open>Exception\<close>, with \<open>m\<close> what
  \<open>str(e)\<close> gives. \<open>KeyboardInterrupt\<close> is the one exception named by the source that
  is not an instance of \<open>Exception\<close>: \<open>except Exception\<close> lets it through, and
  \<open>main\<close> catches it by name.
\<close>

datatype exn = Exception string | KeyboardInterrupt

datatype level = INFO | WARNING | ERROR

datatype response = Response (status_code: int) (content: string) (text_str: string)

text \<open>
  A decoded image: \<open>img.size\<close>, and what \<open>img.verify()\<close> does (\<open>None\<close>: it returns,
  \<open>Some e\<close>: it raises \<open>e\<close>).
\<close>

datatype image = Image (size_img: "int \<times> int") (verify: "exn option")

text \<open>An \<open>img\<close> element: its attributes. \<open>img.get(k, d)\<close> is \<open>tag_get\<close>.\<close>

type_synonym tag = "string \<rightharpoonup> string"

definition tag_get :: "tag \<Rightarrow> string \<Rightarrow> string \<Rightarrow> string" where
  "tag_get img k d = (case img k of None \<Rightarrow> d | Some v \<Rightarrow> v)"

record message =
  msg_From :: "string option"
  msg_To :: "string option"
  msg_Subject :: string
  msg_body :: string

datatype event =
    Log level string
  | HttpGet string nat
  | SmtpConnect string nat
  | SmtpStarttls
  | SmtpLogin "string option" "string option"
  | SmtpSendMessage message
  | SmtpQuit
  | Sleep nat

type_synonym world = "event list"

text \<open>
  What the libraries answer. \<open>None\<close> from a call without a result means that it returned.
  \<^item> \<open>getenv\<close>: \<open>os.getenv\<close>, after \<open>load_dotenv()\<close>;
  \<^item> \<open>http_get w url timeout\<close>: \<open>requests.get(url, timeout=timeout)\<close>;
  \<^item> \<open>image_open w bytes\<close>: \<open>Image.open(BytesIO(bytes))\<close>;
  \<^item> \<open>find_all_img markup\<close>: \<open>BeautifulSoup(markup, 'html.parser').find_all('img')\<close>;
  \<^item> \<open>urljoin base url\<close>: \<open>requests.compat.urljoin(base, url)\<close>;
  \<^item> \<open>smtp_connect\<close>: the constructor \<open>smtplib.SMTP(host, port)\<close>; \<open>smtp_quit\<close>: the
    \<open>__exit__\<close> of the \<open>with\<close> block;
  \<^item> \<open>sleep\<close>: \<open>time.sleep\<close>.
\<close>

record env =
  getenv :: "string \<Rightarrow> string option"
  http_get :: "world \<Rightarrow> string \<Rightarrow> nat \<Rightarrow> exn + response"
  image_open :: "world \<Rightarrow> string \<Rightarrow> exn + image"
  find_all_img :: "string \<Rightarrow> exn + tag list"
  urljoin :: "string \<Rightarrow> string \<Rightarrow> exn + string"
  smtp_connect :: "world \<Rightarrow> string \<Rightarrow> nat \<Rightarrow> exn option"
  smtp_starttls :: "world \<Rightarrow> exn option"
  smtp_login :: "world \<Rightarrow> string option \<Rightarrow> string option \<Rightarrow> exn option"
  smtp_send_message :: "world \<Rightarrow> message \<Rightarrow> exn option"
  smtp_quit :: "world \<Rightarrow> exn option"
  sleep :: "world \<Rightarrow> nat \<Rightarrow> exn option"

definition logging :: "level \<Rightarrow> string \<Rightarrow> world \<Rightarrow> world" where
  "logging l m w = w @ [Log l m]"

definition requests_get :: "env \<Rightarrow> string \<Rightarrow> nat \<Rightarrow> world \<Rightarrow> (exn + response) \<times> world" where
  "requests_get env u t w = (http_get env w u t, w @ [HttpGet u t])"

text \<open>\<open>s.startswith(p)\<close>, and \<open>s.startswith((p1, p2, ...))\<close> with a tuple.\<close>

definition startswith :: "string \<Rightarrow> string \<Rightarrow> bool" where
  "startswith s p = prefix p s"

definition startswith_any :: "string \<Rightarrow> string list \<Rightarrow> bool" where
  "startswith_any s ps = list_ex (startswith s) ps"

text \<open>\<open>str(n)\<close> of a Python int, for the f-strings.\<close>

fun str_nat :: "nat \<Rightarrow> string" where
  "str_nat n = (if n < 10 then [char_of (48 + n)] else str_nat (n div 10) @ [char_of (48 + n mod 10)])"

declare str_nat.simps [simp del]

definition str_int :: "int \<Rightarrow> string" where
  "str_int i = (if i < 0 then CHR ''-'' # str_nat (nat (- i)) else str_nat (nat i))"

definition MIN_WIDTH :: int where
  "MIN_WIDTH = 200"

definition MIN_HEIGHT :: int where
  "MIN_HEIGHT = 200"

subsection \<open>ImageChecker\<close>

record ImageChecker =
  url :: string
  email_sender :: "string option"
  email_password :: "string option"
  email_receiver :: "string option"
  smtp_server :: string
  smtp_port :: nat

text \<open>Truth value of what \<open>os.getenv\<close> returns: \<open>None\<close> and the empty string are false.\<close>

definition truthy_str :: "string option \<Rightarrow> bool" where
  "truthy_str v = (case v of None \<Rightarrow> False | Some s \<Rightarrow> s \<noteq> [])"

definition ImageChecker_init :: "env \<Rightarrow> exn + ImageChecker" where
  "ImageChecker_init env =
     (let self = \<lparr> url = ''https://tutor4science.com/'',
                   email_sender = getenv env ''EMAIL_SENDER'',
                   email_password = getenv env ''EMAIL_APP_PASSWORD'',
                   email_receiver = getenv env ''EMAIL_RECEIVER'',
                   smtp_server = ''smtp.gmail.com'',
                   smtp_port = 587 \<rparr>
      in if \<not> list_all truthy_str [email_sender self, email_password self, email_receiver self]
         then Inl (Exception ''Email configuration is incomplete. Please check your .env file.'')
         else Inr self)"

definition is_base64_image :: "string \<Rightarrow> bool" where
  "is_base64_image img_url = startswith img_url ''data:image''"

text \<open>
  The result of \<open>check_image_url\<close>: Python's \<open>True\<close>, \<open>None\<close>, \<open>False\<close> are
  \<open>Some True\<close>, \<open>None\<close>, \<open>Some False\<close>; a dimension is an int or \<open>None\<close>.
\<close>

type_synonym check_result = "bool option \<times> int option \<times> int option"

text \<open>The body of the \<open>try\<close> of \<open>check_image_url\<close>.\<close>

definition check_image_url_try :: "env \<Rightarrow> string \<Rightarrow> world \<Rightarrow> (exn + check_result) \<times> world" where
  "check_image_url_try env img_url w =
     (if is_base64_image img_url then (Inr (Some True, None, None), w)
      else case requests_get env img_url 10 w of
          (Inl e, w1) \<Rightarrow> (Inl e, w1)
        | (Inr response, w1) \<Rightarrow>
            if status_code response = 200 then
              (case image_open env w1 (content response) of
                 Inl e \<Rightarrow> (Inl e, w1)
               | Inr img \<Rightarrow>
                   (case size_img img of (width, height) \<Rightarrow>
                      if width \<ge> MIN_WIDTH \<and> height \<ge> MIN_HEIGHT then
                        (case verify img of
                           Some e \<Rightarrow> (Inl e, w1)
                         | None \<Rightarrow> (Inr (Some True, Some width, Some height), w1))
                      else (Inr (None, Some width, Some height), w1)))
            else (Inr (Some False, None, None), w1))"

text \<open>The \<open>try\<close> with its handler \<open>except Exception as e\<close>.\<close>

definition check_image_url :: "env \<Rightarrow> string \<Rightarrow> world \<Rightarrow> (exn + check_result) \<times> world" where
  "check_image_url env img_url w =
     (case check_image_url_try env img_url w of
        (Inr r, w1) \<Rightarrow> (Inr r, w1)
      | (Inl (Exception m), w1) \<Rightarrow>
          (Inr (Some False, None, None),
           logging ERROR (''Error checking image '' @ img_url @ '': '' @ m) w1)
      | (Inl KeyboardInterrupt, w1) \<Rightarrow> (Inl KeyboardInterrupt, w1))"

subsection \<open>The notification\<close>

text \<open>A record of the broken-image list: \<open>(img_url, width, height)\<close>.\<close>

type_synonym broken_image = "string \<times> int \<times> int"

definition body_header :: string where
  "body_header = ''The following images are not rendering properly (only main content images are checked):'' @ [CHR 0x0A, CHR 0x0A]"

text \<open>The line that one turn of the \<open>for\<close> of \<open>send_email_notification\<close> adds to \<open>body\<close>.\<close>

definition body_line :: "broken_image \<Rightarrow> string" where
  "body_line r = (case r of (img, width, height) \<Rightarrow>
     ''- '' @ img @ '' (size: '' @ str_int width @ ''x'' @ str_int height @ '')'' @ [CHR 0x0A])"

definition compose_body :: "broken_image list \<Rightarrow> string" where
  "compose_body broken_images = foldl (\<lambda>body r. body @ body_line r) body_header broken_images"

definition compose_message :: "ImageChecker \<Rightarrow> broken_image list \<Rightarrow> message" where
  "compose_message self broken_images =
     \<lparr> msg_From = email_sender self,
       msg_To = email_receiver self,
       msg_Subject = ''Broken Images Found on '' @ url self,
       msg_body = compose_body broken_images \<rparr>"

text \<open>
  The three calls inside \<open>with smtplib.SMTP(...) as server\<close>; the first that raises ends
  the block.
\<close>

definition smtp_block :: "env \<Rightarrow> ImageChecker \<Rightarrow> message \<Rightarrow> world \<Rightarrow> exn option \<times> world" where
  "smtp_block env self msg w =
     (let w1 = w @ [SmtpStarttls] in
      case smtp_starttls env w of
        Some e \<Rightarrow> (Some e, w1)
      | None \<Rightarrow>
          (let w2 = w1 @ [SmtpLogin (email_sender self) (email_password self)] in
           case smtp_login env w1 (email_sender self) (email_password self) of
             Some e \<Rightarrow> (Some e, w2)
           | None \<Rightarrow> (smtp_send_message env w2 msg, w2 @ [SmtpSendMessage msg])))"

text \<open>
  The \<open>with\<close> statement: the constructor connects; when it returns, the block runs and
  \<open>__exit__\<close> is called however the block ended; an exception of \<open>__exit__\<close> replaces the
  block's.
\<close>

definition smtp_session :: "env \<Rightarrow> ImageChecker \<Rightarrow> message \<Rightarrow> world \<Rightarrow> exn option \<times> world" where
  "smtp_session env self msg w =
     (let w1 = w @ [SmtpConnect (smtp_server self) (smtp_port self)] in
      case smtp_connect env w (smtp_server self) (smtp_port self) of
        Some e \<Rightarrow> (Some e, w1)
      | None \<Rightarrow>
          (case smtp_block env self msg w1 of (r, w2) \<Rightarrow>
             (case smtp_quit env w2 of
                Some e \<Rightarrow> (Some e, w2 @ [SmtpQuit])
              | None \<Rightarrow> (r, w2 @ [SmtpQuit]))))"

definition send_email_notification ::
    "env \<Rightarrow> ImageChecker \<Rightarrow> broken_image list \<Rightarrow> world \<Rightarrow> exn option \<times> world" where
  "send_email_notification env self broken_images w =
     (if broken_images = [] then (None, w)
      else case smtp_session env self (compose_message self broken_images) w of
          (None, w1) \<Rightarrow> (None, logging INFO ''Email notification sent successfully'' w1)
        | (Some (Exception m), w1) \<Rightarrow> (None, logging ERROR (''Error sending email: '' @ m) w1)
        | (Some KeyboardInterrupt, w1) \<Rightarrow> (Some KeyboardInterrupt, w1))"

subsection \<open>One cycle\<close>

text \<open>Lines 110 and 111: a source that has none of the three prefixes goes through \<open>urljoin\<close>.\<close>

definition resolve_url :: "env \<Rightarrow> ImageChecker \<Rightarrow> string \<Rightarrow> exn + string" where
  "resolve_url env self img_url =
     (if \<not> startswith_any img_url [''http://'', ''https://'', ''data:image'']
      then urljoin env (url self) img_url
      else Inr img_url)"

text \<open>
  The condition of line 114,
  \<open>result is False and width and height and width >= MIN_WIDTH and height >= MIN_HEIGHT\<close>:
  \<open>Some (width, height)\<close> when it holds. A dimension that is \<open>None\<close> or 0 is false, and
  \<open>and\<close> stops there, before the comparison.
\<close>

fun append_guard :: "check_result \<Rightarrow> (int \<times> int) option" where
  "append_guard (Some False, Some width, Some height) =
     (if width \<noteq> 0 \<and> height \<noteq> 0 \<and> width \<ge> MIN_WIDTH \<and> height \<ge> MIN_HEIGHT
      then Some (width, height) else None)"
| "append_guard _ = None"

text \<open>
  The \<open>for img in images\<close> of \<open>check_website_images\<close>, with the list \<open>broken_images\<close>
  built so far. An exception leaves the loop.
\<close>

fun check_images_loop ::
    "env \<Rightarrow> ImageChecker \<Rightarrow> tag list \<Rightarrow> broken_image list \<Rightarrow> world
       \<Rightarrow> (exn + broken_image list) \<times> world" where
  "check_images_loop env self [] broken_images w = (Inr broken_images, w)"
| "check_images_loop env self (img # images) broken_images w =
     (let img_url = tag_get img ''src'' [] in
      if img_url = [] then check_images_loop env self images broken_images w
      else case resolve_url env self img_url of
          Inl e \<Rightarrow> (Inl e, w)
        | Inr img_url' \<Rightarrow>
            (case check_image_url env img_url' w of
               (Inl e, w1) \<Rightarrow> (Inl e, w1)
             | (Inr r, w1) \<Rightarrow>
                 (case append_guard r of
                    Some (width, height) \<Rightarrow>
                      check_images_loop env self images
                        (broken_images @ [(img_url', width, height)])
                        (logging WARNING
                           (''Broken main image found: '' @ img_url' @ '' (size: ''
                              @ str_int width @ ''x'' @ str_int height @ '')'') w1)
                  | None \<Rightarrow> check_images_loop env self images broken_images w1)))"

text \<open>The body of the \<open>try\<close> of \<open>check_website_images\<close>.\<close>

definition check_website_images_try ::
    "env \<Rightarrow> ImageChecker \<Rightarrow> world \<Rightarrow> (exn + broken_image list) \<times> world" where
  "check_website_images_try env self w =
     (case requests_get env (url self) 10 w of
        (Inl e, w1) \<Rightarrow> (Inl e, w1)
      | (Inr response, w1) \<Rightarrow>
          (case find_all_img env (text_str response) of
             Inl e \<Rightarrow> (Inl e, w1)
           | Inr images \<Rightarrow>
               (case check_images_loop env self images [] w1 of
                  (Inl e, w2) \<Rightarrow> (Inl e, w2)
                | (Inr broken_images, w2) \<Rightarrow>
                    if broken_images \<noteq> [] then
                      (case send_email_notification env self broken_images w2 of
                         (Some e, w3) \<Rightarrow> (Inl e, w3)
                       | (None, w3) \<Rightarrow> (Inr broken_images, w3))
                    else (Inr broken_images,
                          logging INFO ''All main content images are rendering properly'' w2))))"

definition check_website_images ::
    "env \<Rightarrow> ImageChecker \<Rightarrow> world \<Rightarrow> (exn + broken_image list) \<times> world" where
  "check_website_images env self w =
     (case check_website_images_try env self w of
        (Inr broken_images, w1) \<Rightarrow> (Inr broken_images, w1)
      | (Inl (Exception m), w1) \<Rightarrow> (Inr [], logging ERROR (''Error checking website: '' @ m) w1)
      | (Inl KeyboardInterrupt, w1) \<Rightarrow> (Inl KeyboardInterrupt, w1))"

subsection \<open>main\<close>

text \<open>
  \<open>while True\<close> ends only by an exception. \<open>main_loop n\<close> runs at most \<open>n\<close> turns:
  \<open>Some e\<close> when a turn raised \<open>e\<close>, \<open>None\<close> when all \<open>n\<close> turns went through and the
  loop is still running.
\<close>

fun main_loop :: "nat \<Rightarrow> env \<Rightarrow> ImageChecker \<Rightarrow> world \<Rightarrow> exn option \<times> world" where
  "main_loop 0 env checker w = (None, w)"
| "main_loop (Suc n) env checker w =
     (case check_website_images env checker (logging INFO ''Starting image check...'' w) of
        (Inl e, w1) \<Rightarrow> (Some e, w1)
      | (Inr broken_images, w1) \<Rightarrow>
          (case sleep env w1 3600 of
             Some e \<Rightarrow> (Some e, w1 @ [Sleep 3600])
           | None \<Rightarrow> main_loop n env checker (w1 @ [Sleep 3600])))"

datatype outcome = Returned | Running

definition main :: "nat \<Rightarrow> env \<Rightarrow> world \<Rightarrow> outcome \<times> world" where
  "main n env w =
     (case ImageChecker_init env of
        Inl KeyboardInterrupt \<Rightarrow> (Returned, logging INFO ''Script stopped by user'' w)
      | Inl (Exception m) \<Rightarrow> (Returned, logging ERROR (''Unexpected error: '' @ m) w)
      | Inr checker \<Rightarrow>
          (case main_loop n env checker w of
             (None, w1) \<Rightarrow> (Running, w1)
           | (Some KeyboardInterrupt, w1) \<Rightarrow> (Returned, logging INFO ''Script stopped by user'' w1)
           | (Some (Exception m), w1) \<Rightarrow>
               (Returned, logging ERROR (''Unexpected error: '' @ m) w1)))"

subsection \<open>Reading a trace\<close>

definition is_smtp :: "event \<Rightarrow> bool" where
  "is_smtp e = (case e of
       SmtpConnect h p \<Rightarrow> True | SmtpStarttls \<Rightarrow> True | SmtpLogin u p \<Rightarrow> True
     | SmtpSendMessage m \<Rightarrow> True | SmtpQuit \<Rightarrow> True | _ \<Rightarrow> False)"

text \<open>The messages handed to \<open>server.send_message\<close>, and the addresses fetched, in order.\<close>

definition sent_messages :: "world \<Rightarrow> message list" where
  "sent_messages w = concat (map (\<lambda>e. case e of SmtpSendMessage m \<Rightarrow> [m] | _ \<Rightarrow> []) w)"

definition fetched_urls :: "world \<Rightarrow> string list" where
  "fetched_urls w = concat (map (\<lambda>e. case e of HttpGet u t \<Rightarrow> [u] | _ \<Rightarrow> []) w)"

definition log_lines :: "world \<Rightarrow> (level \<times> string) list" where
  "log_lines w = concat (map (\<lambda>e. case e of Log l m \<Rightarrow> [(l, m)] | _ \<Rightarrow> []) w)"

text \<open>A log line that is not an error line.\<close>

definition is_report :: "event \<Rightarrow> bool" where
  "is_report e = (case e of Log l m \<Rightarrow> l \<noteq> ERROR | _ \<Rightarrow> False)"

text \<open>
  The messages that \<open>server.send_message\<close> took and returned from, in order. The trace
  keeps the call; whether the call returned is what the world answered to it, given the
  events before it.
\<close>

fun delivered_from :: "env \<Rightarrow> world \<Rightarrow> world \<Rightarrow> message list" where
  "delivered_from env pre [] = []"
| "delivered_from env pre (e # es) =
     (case e of
        SmtpSendMessage m \<Rightarrow> if smtp_send_message env pre m = None then [m] else []
      | _ \<Rightarrow> [])
     @ delivered_from env (pre @ [e]) es"

definition delivered :: "env \<Rightarrow> world \<Rightarrow> message list" where
  "delivered env w = delivered_from env [] w"

subsection \<open>Concrete worlds\<close>

text \<open>
  A checker as \<open>ImageChecker_init\<close> builds it, and two worlds to run the functions in.
  In \<open>env_down\<close> no address answers; \<open>urljoin\<close> there joins a site-root base and a
  reference, as the library does for such a base. \<open>env_example\<close> serves a page with five
  images: a small logo given by a relative source, a banner whose server answers 500, an
  element without source, an inline-encoded image, and a large image that is in order.
\<close>

definition checker0 :: ImageChecker where
  "checker0 = \<lparr> url = ''https://tutor4science.com/'',
                email_sender = Some ''monitor@example.com'',
                email_password = Some ''app-password'',
                email_receiver = Some ''owner@example.com'',
                smtp_server = ''smtp.gmail.com'',
                smtp_port = 587 \<rparr>"

definition env_down :: env where
  "env_down = \<lparr>
     getenv = (\<lambda>k. if k = ''EMAIL_SENDER'' then Some ''monitor@example.com''
                   else if k = ''EMAIL_APP_PASSWORD'' then Some ''app-password''
                   else if k = ''EMAIL_RECEIVER'' then Some ''owner@example.com''
                   else None),
     http_get = (\<lambda>w u t. Inl (Exception ''ConnectionError'')),
     image_open = (\<lambda>w b. Inl (Exception ''cannot identify image file'')),
     find_all_img = (\<lambda>m. Inr []),
     urljoin = (\<lambda>base u. Inr (if prefix ''/'' u then butlast base @ u else base @ u)),
     smtp_connect = (\<lambda>w h p. None),
     smtp_starttls = (\<lambda>w. None),
     smtp_login = (\<lambda>w u p. None),
     smtp_send_message = (\<lambda>w m. None),
     smtp_quit = (\<lambda>w. None),
     sleep = (\<lambda>w n. None) \<rparr>"

definition example_page :: string where
  "example_page = ''<img src=/logo.png><img src=https://cdn.example.com/banner.jpg><img alt=spacer><img src=data:image/gif;base64,R0lGODlhAQABAAAAACw=><img src=https://tutor4science.com/hero.jpg>''"

definition example_images :: "tag list" where
  "example_images =
     [[''src'' \<mapsto> ''/logo.png''],
      [''src'' \<mapsto> ''https://cdn.example.com/banner.jpg''],
      [''alt'' \<mapsto> ''spacer''],
      [''src'' \<mapsto> ''data:image/gif;base64,R0lGODlhAQABAAAAACw=''],
      [''src'' \<mapsto> ''https://tutor4science.com/hero.jpg'']]"

definition env_example :: env where
  "env_example = env_down \<lparr>
     http_get := (\<lambda>w u t.
        if u = ''https://tutor4science.com/'' then Inr (Response 200 [] example_page)
        else if u = ''https://tutor4science.com/logo.png'' then Inr (Response 200 ''logo'' [])
        else if u = ''https://tutor4science.com/hero.jpg'' then Inr (Response 200 ''hero'' [])
        else if u = ''https://cdn.example.com/banner.jpg'' then Inr (Response 500 [] [])
        else Inl (Exception ''ConnectionError'')),
     image_open := (\<lambda>w b.
        if b = ''logo'' then Inr (Image (50, 50) None)
        else if b = ''hero'' then Inr (Image (1200, 800) None)
        else Inl (Exception ''cannot identify image file'')),
     find_all_img := (\<lambda>m. if m = example_page then Inr example_images else Inr []) \<rparr>"

text \<open>
  Variants of \<open>env_down\<close>: the page's server answers 500 with a body without images; the
  sender's credential is set but empty; the mail server refuses the login; the operator
  presses Ctrl-C while a fetch is waiting.
\<close>

definition env_page_500 :: env where
  "env_page_500 = env_down \<lparr>
     http_get := (\<lambda>w u t. Inr (Response 500 [] ''Internal Server Error'')) \<rparr>"

definition env_no_password :: env where
  "env_no_password = env_down \<lparr>
     getenv := (\<lambda>k. if k = ''EMAIL_SENDER'' then Some ''monitor@example.com''
                   else if k = ''EMAIL_APP_PASSWORD'' then Some []
                   else if k = ''EMAIL_RECEIVER'' then Some ''owner@example.com''
                   else None) \<rparr>"



text \<open>
  Two more: the mail server accepts the login and refuses the message; Ctrl-C is pressed
  during the login.
\<close>

definition env_send_refused :: env where
  "env_send_refused = env_down \<lparr>
     smtp_send_message := (\<lambda>w m. Some (Exception ''SMTPRecipientsRefused'')) \<rparr>"

definition env_login_interrupt :: env where
  "env_login_interrupt = env_down \<lparr> smtp_login := (\<lambda>w u p. Some KeyboardInterrupt) \<rparr>"

subsection \<open>The addresses to check, in the words of the specification\<close>

text \<open>
  These three definitions are not taken from the source. They follow the specification:
  every image element with a source that is not empty, in document order; a relative
  source resolved against the base, an absolute or inline-encoded one unchanged; and a
  fetch for every resolved address that is not inline-encoded. The loop of the source is
  compared with them below.
\<close>

definition spec_image_sources :: "tag list \<Rightarrow> string list" where
  "spec_image_sources images =
     filter (\<lambda>s. s \<noteq> []) (map (\<lambda>img. case img ''src'' of None \<Rightarrow> [] | Some s \<Rightarrow> s) images)"

definition spec_resolved_source :: "env \<Rightarrow> string \<Rightarrow> string \<Rightarrow> exn + string" where
  "spec_resolved_source env base s =
     (if prefix ''http://'' s \<or> prefix ''https://'' s \<or> prefix ''data:image'' s then Inr s
      else urljoin env base s)"

definition spec_expected_fetches :: "env \<Rightarrow> string \<Rightarrow> tag list \<Rightarrow> string list" where
  "spec_expected_fetches env base images =
     concat (map (\<lambda>s. case spec_resolved_source env base s of
                         Inl e \<Rightarrow> []
                       | Inr u \<Rightarrow> if prefix ''data:image'' u then [] else [u])
                 (spec_image_sources images))"

section \<open>Properties\<close>

subsection \<open>What one image check can return, and what the loop does with it\<close>

lemmas ciu_defs = check_image_url_def check_image_url_try_def requests_get_def logging_def

lemmas ciu_splits = if_splits prod.splits sum.splits exn.splits option.splits

lemmas run_defs = ciu_defs check_website_images_def check_website_images_try_def
  resolve_url_def startswith_any_def startswith_def is_base64_image_def tag_get_def
  MIN_WIDTH_def MIN_HEIGHT_def env_down_def env_example_def checker0_def example_images_def

lemma check_image_url_False_dims:
  "check_image_url env u w = (Inr (Some False, wd, ht), w1) \<Longrightarrow> wd = None \<and> ht = None"
  by (auto simp: ciu_defs split: ciu_splits)

lemma check_image_url_guard:
  "check_image_url env u w = (Inr r, w1) \<Longrightarrow> append_guard r = None"
  by (auto simp: ciu_defs split: ciu_splits)

lemma check_image_url_smtp:
  "filter is_smtp (snd (check_image_url env u w)) = filter is_smtp w"
  by (auto simp: ciu_defs is_smtp_def split: ciu_splits)

text \<open>One turn of the loop, for an image with a source that resolves and a check that returns.\<close>

lemma check_images_loop_turn:
  assumes "tag_get img ''src'' [] \<noteq> []"
    and "resolve_url env self (tag_get img ''src'' []) = Inr u"
    and "check_image_url env u w = (Inr r, w1)"
  shows "check_images_loop env self (img # images) b w = check_images_loop env self images b w1"
proof -
  have "append_guard r = None"
    using assms(3) by (rule check_image_url_guard)
  with assms show ?thesis
    by (simp add: Let_def)
qed

lemma check_images_loop_keeps:
  "check_images_loop env self images b w = (Inr b', w') \<Longrightarrow> b' = b"
proof (induction images arbitrary: b w)
  case Nil
  then show ?case by simp
next
  case (Cons img images)
  show ?case
  proof (cases "tag_get img ''src'' [] = []")
    case True
    with Cons show ?thesis by simp
  next
    case False
    from Cons.prems False obtain u where u: "resolve_url env self (tag_get img ''src'' []) = Inr u"
      by (auto simp: Let_def split: sum.splits)
    from Cons.prems False u obtain r w1 where r: "check_image_url env u w = (Inr r, w1)"
      by (auto simp: Let_def split: sum.splits prod.splits)
    from Cons.prems have "check_images_loop env self images b w1 = (Inr b', w')"
      by (simp only: check_images_loop_turn [OF False u r])
    then show ?thesis by (rule Cons.IH)
  qed
qed

lemma check_images_loop_smtp:
  "filter is_smtp (snd (check_images_loop env self images b w)) = filter is_smtp w"
proof (induction images arbitrary: b w)
  case Nil
  then show ?case by simp
next
  case (Cons img images)
  show ?case
  proof (cases "tag_get img ''src'' [] = []")
    case True
    with Cons show ?thesis by simp
  next
    case False
    show ?thesis
    proof (cases "resolve_url env self (tag_get img ''src'' [])")
      case (Inl e)
      with False show ?thesis by (simp add: Let_def)
    next
      case (Inr u)
      obtain x w1 where c: "check_image_url env u w = (x, w1)"
        by (cases "check_image_url env u w")
      have s: "filter is_smtp w1 = filter is_smtp w"
        using check_image_url_smtp [of env u w] c by simp
      show ?thesis
      proof (cases x)
        case (Inl e)
        with False Inr c s show ?thesis by (simp add: Let_def)
      next
        case r: (Inr r)
        with c have "check_image_url env u w = (Inr r, w1)" by simp
        from check_images_loop_turn [OF False Inr this] s Cons.IH [of b w1]
        show ?thesis by simp
      qed
    qed
  qed
qed

lemma check_website_images_try_empty:
  "check_website_images_try env self w = (Inr bl, w') \<Longrightarrow> bl = []"
  by (auto simp: check_website_images_try_def requests_get_def split: ciu_splits
      dest: check_images_loop_keeps)

lemma check_website_images_try_smtp:
  "filter is_smtp (snd (check_website_images_try env self w)) = filter is_smtp w"
proof (cases "http_get env w (url self) 10")
  case (Inl e)
  then show ?thesis
    by (simp add: check_website_images_try_def requests_get_def is_smtp_def)
next
  case (Inr r)
  show ?thesis
  proof (cases "find_all_img env (text_str r)")
    case (Inl e)
    with Inr show ?thesis
      by (simp add: check_website_images_try_def requests_get_def is_smtp_def)
  next
    case imgs: (Inr images)
    obtain x w2 where l: "check_images_loop env self images [] (w @ [HttpGet (url self) 10]) = (x, w2)"
      by (cases "check_images_loop env self images [] (w @ [HttpGet (url self) 10])")
    have s: "filter is_smtp w2 = filter is_smtp w"
      using check_images_loop_smtp [of env self images "[]" "w @ [HttpGet (url self) 10]"] l
      by (simp add: is_smtp_def)
    show ?thesis
    proof (cases x)
      case (Inl e)
      with Inr imgs l s show ?thesis
        by (simp add: check_website_images_try_def requests_get_def)
    next
      case b: (Inr bl)
      with l have "bl = []"
        using check_images_loop_keeps by blast
      with Inr imgs l s b show ?thesis
        by (simp add: check_website_images_try_def requests_get_def logging_def is_smtp_def)
    qed
  qed
qed

lemma check_website_images_smtp:
  "filter is_smtp (snd (check_website_images env self w)) = filter is_smtp w"
proof -
  obtain x w1 where t: "check_website_images_try env self w = (x, w1)"
    by (cases "check_website_images_try env self w")
  have "filter is_smtp w1 = filter is_smtp w"
    using check_website_images_try_smtp [of env self w] t by simp
  with t show ?thesis
    by (auto simp: check_website_images_def logging_def is_smtp_def split: sum.splits exn.splits)
qed

lemma check_website_images_result:
  "fst (check_website_images env self w) = Inr [] \<or>
   fst (check_website_images env self w) = Inl KeyboardInterrupt"
proof -
  obtain x w1 where t: "check_website_images_try env self w = (x, w1)"
    by (cases "check_website_images_try env self w")
  show ?thesis
  proof (cases x)
    case (Inl e)
    with t show ?thesis
      by (cases e) (simp_all add: check_website_images_def)
  next
    case (Inr bl)
    with t have "bl = []"
      using check_website_images_try_empty by blast
    with t Inr show ?thesis
      by (simp add: check_website_images_def)
  qed
qed

lemma sent_messages_smtp: "sent_messages (filter is_smtp w) = sent_messages w"
  by (induction w) (auto simp: sent_messages_def is_smtp_def split: event.splits)

lemma check_website_images_sent:
  "sent_messages (snd (check_website_images env self w)) = sent_messages w"
proof -
  have "sent_messages (snd (check_website_images env self w))
      = sent_messages (filter is_smtp (snd (check_website_images env self w)))"
    by (simp only: sent_messages_smtp)
  also have "\<dots> = sent_messages (filter is_smtp w)"
    by (simp only: check_website_images_smtp)
  also have "\<dots> = sent_messages w"
    by (simp only: sent_messages_smtp)
  finally show ?thesis .
qed

text \<open>
  C1: an image whose check returns the failure outcome (a response other than 200, a
  network error, undecodable data) has no dimensions in that outcome; the turn of the loop
  that checked it leaves the broken-image list as it was; the list that
  \<open>check_website_images\<close> returns does not hold it, and the cycle sends no message.
\<close>

theorem failed_image_not_reported:
  assumes chk: "check_image_url env u w = (Inr (Some False, wd, ht), w1)"
    and src: "tag_get img ''src'' [] \<noteq> []"
    and res: "resolve_url env self (tag_get img ''src'' []) = Inr u"
  shows "wd = None \<and> ht = None
    \<and> check_images_loop env self (img # images) broken_images w
        = check_images_loop env self images broken_images w1
    \<and> (\<forall>w0 bl w'. check_website_images env self w0 = (Inr bl, w')
          \<longrightarrow> u \<notin> fst ` set bl \<and> sent_messages w' = sent_messages w0)"
proof -
  have dims: "wd = None \<and> ht = None"
    using chk by (rule check_image_url_False_dims)
  have turn: "check_images_loop env self (img # images) broken_images w
        = check_images_loop env self images broken_images w1"
    using src res chk by (rule check_images_loop_turn)
  have cycle: "u \<notin> fst ` set bl \<and> sent_messages w' = sent_messages w0"
    if "check_website_images env self w0 = (Inr bl, w')" for w0 bl w'
  proof -
    have "bl = []"
      using check_website_images_result [of env self w0] that by simp
    moreover have "sent_messages w' = sent_messages w0"
      using check_website_images_sent [of env self w0] that by simp
    ultimately show ?thesis by simp
  qed
  from dims turn cycle show ?thesis by blast
qed

theorem failed_image_not_reported_witness:
  "check_image_url env_example ''https://cdn.example.com/banner.jpg'' []
      = (Inr (Some False, None, None), [HttpGet ''https://cdn.example.com/banner.jpg'' 10])
   \<and> check_images_loop env_example checker0
        [[''src'' \<mapsto> ''https://cdn.example.com/banner.jpg'']] [(''kept'', 300, 300)] []
      = (Inr [(''kept'', 300, 300)], [HttpGet ''https://cdn.example.com/banner.jpg'' 10])
   \<and> fst (check_website_images env_example checker0 []) = Inr []
   \<and> sent_messages (snd (check_website_images env_example checker0 [])) = []"
proof -
  have chk: "check_image_url env_example ''https://cdn.example.com/banner.jpg'' []
      = (Inr (Some False, None, None), [HttpGet ''https://cdn.example.com/banner.jpg'' 10])"
    by (simp add: run_defs)
  have src: "tag_get [''src'' \<mapsto> ''https://cdn.example.com/banner.jpg''] ''src'' [] \<noteq> []"
    by (simp add: tag_get_def)
  have res: "resolve_url env_example checker0
       (tag_get [''src'' \<mapsto> ''https://cdn.example.com/banner.jpg''] ''src'' [])
      = Inr ''https://cdn.example.com/banner.jpg''"
    by (simp add: run_defs)
  note t = failed_image_not_reported [OF chk src res,
      where images = "[]" and broken_images = "[(''kept'', 300, 300)]"]
  have turn: "check_images_loop env_example checker0
        [[''src'' \<mapsto> ''https://cdn.example.com/banner.jpg'']] [(''kept'', 300, 300)] []
      = check_images_loop env_example checker0 [] [(''kept'', 300, 300)]
          [HttpGet ''https://cdn.example.com/banner.jpg'' 10]"
    using t by blast
  have cycle: "\<forall>w0 bl w'. check_website_images env_example checker0 w0 = (Inr bl, w')
      \<longrightarrow> ''https://cdn.example.com/banner.jpg'' \<notin> fst ` set bl
        \<and> sent_messages w' = sent_messages w0"
    using t by blast
  obtain w' where run: "check_website_images env_example checker0 [] = (Inr [], w')"
    by (simp add: run_defs)
  from cycle run have "sent_messages w' = sent_messages []"
    by blast
  with chk turn run show ?thesis
    by (simp add: sent_messages_def)
qed

text \<open>
  C2: whatever the world answers, \<open>check_website_images\<close> returns the empty list, unless a
  KeyboardInterrupt passes through it; the cycle makes no call to the mail server. The
  reasons: a check that returns \<open>False\<close> returns no dimensions, so no result of a check
  passes the condition of line 114, and the loop returns the list it was started with.
\<close>

theorem broken_images_always_empty:
  "(fst (check_website_images env self w) = Inr []
      \<or> fst (check_website_images env self w) = Inl KeyboardInterrupt)
   \<and> filter is_smtp (snd (check_website_images env self w)) = filter is_smtp w
   \<and> (\<forall>u w0 wd ht w1. check_image_url env u w0 = (Inr (Some False, wd, ht), w1)
         \<longrightarrow> wd = None \<and> ht = None)
   \<and> (\<forall>u w0 r w1. check_image_url env u w0 = (Inr r, w1) \<longrightarrow> append_guard r = None)
   \<and> (\<forall>images b w0 b' w'. check_images_loop env self images b w0 = (Inr b', w') \<longrightarrow> b' = b)"
  using check_website_images_result [of env self w] check_website_images_smtp [of env self w]
    check_image_url_False_dims [of env] check_image_url_guard [of env]
    check_images_loop_keeps [of env self]
  by blast

theorem broken_images_always_empty_witness:
  "fst (check_website_images env_example checker0 []) = Inr []
   \<and> filter is_smtp (snd (check_website_images env_example checker0 [])) = []
   \<and> check_image_url env_example ''https://cdn.example.com/banner.jpg'' []
       = (Inr (Some False, None, None), [HttpGet ''https://cdn.example.com/banner.jpg'' 10])
   \<and> append_guard (Some False, None, None) = None
   \<and> fst (check_images_loop env_example checker0 example_images [] []) = Inr []"
proof -
  have chk: "check_image_url env_example ''https://cdn.example.com/banner.jpg'' []
      = (Inr (Some False, None, None), [HttpGet ''https://cdn.example.com/banner.jpg'' 10])"
    by (simp add: run_defs)
  have run: "fst (check_website_images env_example checker0 []) \<noteq> Inl KeyboardInterrupt"
    by (simp add: run_defs)
  obtain b' w' where loop: "check_images_loop env_example checker0 example_images [] [] = (Inr b', w')"
    by (simp add: run_defs)
  note t = broken_images_always_empty [of env_example checker0 "[]"]
  have res: "fst (check_website_images env_example checker0 []) = Inr []"
    using t run by blast
  have smtp: "filter is_smtp (snd (check_website_images env_example checker0 [])) = filter is_smtp []"
    using t by blast
  have guard: "append_guard (Some False, None, None) = None"
    using t chk by blast
  have "b' = []"
    using t loop by blast
  with res smtp chk guard loop show ?thesis
    by simp
qed

subsection \<open>Failures of the page fetch and of the configuration\<close>

lemma check_website_images_try_fetched:
  assumes "http_get env w (url self) 10 = Inr r"
  shows "check_website_images_try env self w =
    (case find_all_img env (text_str r) of
       Inl e \<Rightarrow> (Inl e, w @ [HttpGet (url self) 10])
     | Inr images \<Rightarrow>
         (case check_images_loop env self images [] (w @ [HttpGet (url self) 10]) of
            (Inl e, w2) \<Rightarrow> (Inl e, w2)
          | (Inr bl, w2) \<Rightarrow>
              (Inr [], w2 @ [Log INFO ''All main content images are rendering properly''])))"
proof (cases "find_all_img env (text_str r)")
  case (Inl e)
  with assms show ?thesis
    by (simp add: check_website_images_try_def requests_get_def)
next
  case (Inr images)
  obtain x w2 where l: "check_images_loop env self images [] (w @ [HttpGet (url self) 10]) = (x, w2)"
    by (cases "check_images_loop env self images [] (w @ [HttpGet (url self) 10])")
  show ?thesis
  proof (cases x)
    case (Inl e)
    with assms Inr l show ?thesis
      by (simp add: check_website_images_try_def requests_get_def)
  next
    case b: (Inr bl)
    with l have "bl = []"
      using check_images_loop_keeps by blast
    with assms Inr l b show ?thesis
      by (simp add: check_website_images_try_def requests_get_def logging_def)
  qed
qed

lemma check_website_images_fetch_raises:
  assumes "http_get env w (url self) 10 = Inl (Exception m)"
  shows "check_website_images env self w =
    (Inr [], w @ [HttpGet (url self) 10, Log ERROR (''Error checking website: '' @ m)])"
  using assms
  by (simp add: check_website_images_def check_website_images_try_def requests_get_def logging_def)

text \<open>
  C3, as the code has it: when \<open>requests.get\<close> of the monitored page raises an
  \<open>Exception\<close> (a network error, a timeout), the cycle logs the error, returns the empty
  list and calls no mail server, and the loop goes on to sleep and, when the sleep returns,
  to the next turn. A response with a status other than 200 is no such failure: the status
  of the page is never read, and the cycle is the one of any response, parsing the body,
  checking its images and logging that all images render; it too ends with the empty list
  or a KeyboardInterrupt, and without a call to the mail server.
\<close>

theorem page_fetch_exception_recovered:
  "(http_get env w (url self) 10 = Inl (Exception m) \<longrightarrow>
      check_website_images env self w =
        (Inr [], w @ [HttpGet (url self) 10, Log ERROR (''Error checking website: '' @ m)]))
   \<and> (http_get env (w @ [Log INFO ''Starting image check...'']) (url self) 10 = Inl (Exception m)
       \<and> sleep env (w @ [Log INFO ''Starting image check...'', HttpGet (url self) 10,
                        Log ERROR (''Error checking website: '' @ m)]) 3600 = None \<longrightarrow>
      main_loop (Suc n) env self w =
        main_loop n env self
          (w @ [Log INFO ''Starting image check...'', HttpGet (url self) 10,
                Log ERROR (''Error checking website: '' @ m), Sleep 3600]))
   \<and> (\<forall>r. http_get env w (url self) 10 = Inr r \<longrightarrow>
        check_website_images_try env self w =
          (case find_all_img env (text_str r) of
             Inl e \<Rightarrow> (Inl e, w @ [HttpGet (url self) 10])
           | Inr images \<Rightarrow>
               (case check_images_loop env self images [] (w @ [HttpGet (url self) 10]) of
                  (Inl e, w2) \<Rightarrow> (Inl e, w2)
                | (Inr bl, w2) \<Rightarrow>
                    (Inr [], w2 @ [Log INFO ''All main content images are rendering properly''])))
        \<and> (fst (check_website_images env self w) = Inr []
             \<or> fst (check_website_images env self w) = Inl KeyboardInterrupt)
        \<and> filter is_smtp (snd (check_website_images env self w)) = filter is_smtp w)"
proof -
  have loop: "main_loop (Suc n) env self w =
        main_loop n env self
          (w @ [Log INFO ''Starting image check...'', HttpGet (url self) 10,
                Log ERROR (''Error checking website: '' @ m), Sleep 3600])"
    if f: "http_get env (w @ [Log INFO ''Starting image check...'']) (url self) 10 = Inl (Exception m)"
      and s: "sleep env (w @ [Log INFO ''Starting image check...'', HttpGet (url self) 10,
                        Log ERROR (''Error checking website: '' @ m)]) 3600 = None"
  proof -
    have "check_website_images env self (logging INFO ''Starting image check...'' w) =
        (Inr [], w @ [Log INFO ''Starting image check...'', HttpGet (url self) 10,
                      Log ERROR (''Error checking website: '' @ m)])"
      using check_website_images_fetch_raises [of env "w @ [Log INFO ''Starting image check...'']" self m] f
      by (simp add: logging_def)
    with s show ?thesis
      by simp
  qed
  show ?thesis
    using check_website_images_fetch_raises [of env w self m] loop
      check_website_images_try_fetched [of env w self]
      check_website_images_result [of env self w] check_website_images_smtp [of env self w]
    by blast
qed

theorem page_fetch_exception_recovered_witness:
  "check_website_images env_down checker0 [] =
     (Inr [], [HttpGet ''https://tutor4science.com/'' 10,
               Log ERROR ''Error checking website: ConnectionError''])
   \<and> main_loop 1 env_down checker0 [] =
     (None, [Log INFO ''Starting image check...'', HttpGet ''https://tutor4science.com/'' 10,
             Log ERROR ''Error checking website: ConnectionError'', Sleep 3600])
   \<and> check_website_images_try env_page_500 checker0 [] =
     (Inr [], [HttpGet ''https://tutor4science.com/'' 10,
               Log INFO ''All main content images are rendering properly''])
   \<and> fst (check_website_images env_page_500 checker0 []) = Inr []
   \<and> filter is_smtp (snd (check_website_images env_page_500 checker0 [])) = []"
proof -
  have f: "http_get env_down [] (url checker0) 10 = Inl (Exception ''ConnectionError'')"
    and f': "http_get env_down ([] @ [Log INFO ''Starting image check...'']) (url checker0) 10
       = Inl (Exception ''ConnectionError'')"
    and s: "sleep env_down ([] @ [Log INFO ''Starting image check...'', HttpGet (url checker0) 10,
               Log ERROR (''Error checking website: '' @ ''ConnectionError'')]) 3600 = None"
    by (simp_all add: env_down_def)
  have g: "http_get env_page_500 [] (url checker0) 10 = Inr (Response 500 [] ''Internal Server Error'')"
    by (simp add: env_page_500_def env_down_def)
  note t = page_fetch_exception_recovered [of env_down "[]" checker0 "''ConnectionError''" 0]
  note t' = page_fetch_exception_recovered [of env_page_500 "[]" checker0]
  have a: "check_website_images env_down checker0 [] =
      (Inr [], [] @ [HttpGet (url checker0) 10,
                     Log ERROR (''Error checking website: '' @ ''ConnectionError'')])"
    using t f by blast
  have b: "main_loop (Suc 0) env_down checker0 [] =
      main_loop 0 env_down checker0
        ([] @ [Log INFO ''Starting image check...'', HttpGet (url checker0) 10,
               Log ERROR (''Error checking website: '' @ ''ConnectionError''), Sleep 3600])"
    using t f' s by blast
  have c: "check_website_images_try env_page_500 checker0 [] =
      (case find_all_img env_page_500 (text_str (Response 500 [] ''Internal Server Error'')) of
         Inl e \<Rightarrow> (Inl e, [] @ [HttpGet (url checker0) 10])
       | Inr images \<Rightarrow>
           (case check_images_loop env_page_500 checker0 images [] ([] @ [HttpGet (url checker0) 10]) of
              (Inl e, w2) \<Rightarrow> (Inl e, w2)
            | (Inr bl, w2) \<Rightarrow>
                (Inr [], w2 @ [Log INFO ''All main content images are rendering properly''])))"
    using t' g by blast
  have d: "filter is_smtp (snd (check_website_images env_page_500 checker0 [])) = filter is_smtp []"
    using t' g by blast
  have e: "fst (check_website_images env_page_500 checker0 []) = Inr []"
    by (simp add: run_defs env_page_500_def)
  from a b c d e show ?thesis
    by (simp add: checker0_def env_page_500_def env_down_def)
qed

text \<open>
  The claim C3 as it is written counts a status other than 200 among the failures that are
  logged. Here the page's server answers 500: the cycle logs no error, and reports that
  all images render.
\<close>

theorem page_status_500_not_logged:
  "http_get env_page_500 [] (url checker0) 10 = Inr (Response 500 [] ''Internal Server Error'')
   \<and> check_website_images env_page_500 checker0 [] =
     (Inr [], [HttpGet ''https://tutor4science.com/'' 10,
               Log INFO ''All main content images are rendering properly''])
   \<and> log_lines (snd (check_website_images env_page_500 checker0 [])) =
     [(INFO, ''All main content images are rendering properly'')]"
  by (simp add: run_defs env_page_500_def log_lines_def)

text \<open>
  C4: when one of EMAIL\_SENDER, EMAIL\_APP\_PASSWORD, EMAIL\_RECEIVER is absent from the
  environment or empty, the constructor raises the configuration error, and \<open>main\<close>
  returns after logging it, for any number of turns allowed to the loop: no turn of the loop
  runs. When the three are present and not empty the constructor returns the checker.
\<close>

theorem incomplete_configuration_is_fatal:
  "(getenv env ''EMAIL_SENDER'' = None \<or> getenv env ''EMAIL_SENDER'' = Some []
      \<or> getenv env ''EMAIL_APP_PASSWORD'' = None \<or> getenv env ''EMAIL_APP_PASSWORD'' = Some []
      \<or> getenv env ''EMAIL_RECEIVER'' = None \<or> getenv env ''EMAIL_RECEIVER'' = Some []
    \<longrightarrow> ImageChecker_init env
          = Inl (Exception ''Email configuration is incomplete. Please check your .env file.'')
      \<and> main n env w
          = (Returned, w @ [Log ERROR (''Unexpected error: ''
               @ ''Email configuration is incomplete. Please check your .env file.'')]))
   \<and> (\<forall>s p r. getenv env ''EMAIL_SENDER'' = Some s \<and> s \<noteq> []
        \<and> getenv env ''EMAIL_APP_PASSWORD'' = Some p \<and> p \<noteq> []
        \<and> getenv env ''EMAIL_RECEIVER'' = Some r \<and> r \<noteq> []
      \<longrightarrow> ImageChecker_init env
          = Inr \<lparr> url = ''https://tutor4science.com/'', email_sender = Some s,
                  email_password = Some p, email_receiver = Some r,
                  smtp_server = ''smtp.gmail.com'', smtp_port = 587 \<rparr>)"
proof -
  have bad: "ImageChecker_init env
      = Inl (Exception ''Email configuration is incomplete. Please check your .env file.'')"
    if "\<not> truthy_str (getenv env ''EMAIL_SENDER'') \<or> \<not> truthy_str (getenv env ''EMAIL_APP_PASSWORD'')
        \<or> \<not> truthy_str (getenv env ''EMAIL_RECEIVER'')"
    using that unfolding ImageChecker_init_def Let_def by auto
  have good: "ImageChecker_init env
      = Inr \<lparr> url = ''https://tutor4science.com/'', email_sender = Some s,
              email_password = Some p, email_receiver = Some r,
              smtp_server = ''smtp.gmail.com'', smtp_port = 587 \<rparr>"
    if "getenv env ''EMAIL_SENDER'' = Some s" "s \<noteq> []"
      "getenv env ''EMAIL_APP_PASSWORD'' = Some p" "p \<noteq> []"
      "getenv env ''EMAIL_RECEIVER'' = Some r" "r \<noteq> []" for s p r
    using that unfolding ImageChecker_init_def Let_def by (simp add: truthy_str_def)
  have stop: "main n env w
      = (Returned, w @ [Log ERROR (''Unexpected error: ''
           @ ''Email configuration is incomplete. Please check your .env file.'')])"
    if "ImageChecker_init env
      = Inl (Exception ''Email configuration is incomplete. Please check your .env file.'')"
    using that by (simp add: main_def logging_def)
  have absent: "\<not> truthy_str (getenv env ''EMAIL_SENDER'') \<or> \<not> truthy_str (getenv env ''EMAIL_APP_PASSWORD'')
        \<or> \<not> truthy_str (getenv env ''EMAIL_RECEIVER'')"
    if "getenv env ''EMAIL_SENDER'' = None \<or> getenv env ''EMAIL_SENDER'' = Some []
      \<or> getenv env ''EMAIL_APP_PASSWORD'' = None \<or> getenv env ''EMAIL_APP_PASSWORD'' = Some []
      \<or> getenv env ''EMAIL_RECEIVER'' = None \<or> getenv env ''EMAIL_RECEIVER'' = Some []"
    using that by (auto simp: truthy_str_def)
  show ?thesis
  proof (intro conjI impI allI)
    assume a: "getenv env ''EMAIL_SENDER'' = None \<or> getenv env ''EMAIL_SENDER'' = Some []
      \<or> getenv env ''EMAIL_APP_PASSWORD'' = None \<or> getenv env ''EMAIL_APP_PASSWORD'' = Some []
      \<or> getenv env ''EMAIL_RECEIVER'' = None \<or> getenv env ''EMAIL_RECEIVER'' = Some []"
    show "ImageChecker_init env
      = Inl (Exception ''Email configuration is incomplete. Please check your .env file.'')"
      by (rule bad [OF absent [OF a]])
    then show "main n env w
      = (Returned, w @ [Log ERROR (''Unexpected error: ''
           @ ''Email configuration is incomplete. Please check your .env file.'')])"
      by (rule stop)
  next
    fix s p r
    assume "getenv env ''EMAIL_SENDER'' = Some s \<and> s \<noteq> []
        \<and> getenv env ''EMAIL_APP_PASSWORD'' = Some p \<and> p \<noteq> []
        \<and> getenv env ''EMAIL_RECEIVER'' = Some r \<and> r \<noteq> []"
    then show "ImageChecker_init env
          = Inr \<lparr> url = ''https://tutor4science.com/'', email_sender = Some s,
                  email_password = Some p, email_receiver = Some r,
                  smtp_server = ''smtp.gmail.com'', smtp_port = 587 \<rparr>"
      using good [of s p r] by blast
  qed
qed

theorem incomplete_configuration_is_fatal_witness:
  "getenv env_no_password ''EMAIL_APP_PASSWORD'' = Some []
   \<and> ImageChecker_init env_no_password
       = Inl (Exception ''Email configuration is incomplete. Please check your .env file.'')
   \<and> main 5 env_no_password []
       = (Returned, [Log ERROR
            ''Unexpected error: Email configuration is incomplete. Please check your .env file.''])
   \<and> ImageChecker_init env_down = Inr checker0"
proof -
  have e: "getenv env_no_password ''EMAIL_APP_PASSWORD'' = Some []"
    by (simp add: env_no_password_def env_down_def)
  have s: "getenv env_down ''EMAIL_SENDER'' = Some ''monitor@example.com''"
    and p: "getenv env_down ''EMAIL_APP_PASSWORD'' = Some ''app-password''"
    and r: "getenv env_down ''EMAIL_RECEIVER'' = Some ''owner@example.com''"
    by (simp_all add: env_down_def)
  note t = incomplete_configuration_is_fatal [of env_no_password 5 "[]"]
  note t' = incomplete_configuration_is_fatal [of env_down 0 "[]"]
  have a: "ImageChecker_init env_no_password
       = Inl (Exception ''Email configuration is incomplete. Please check your .env file.'')"
    using t e by blast
  have b: "main 5 env_no_password []
       = (Returned, [] @ [Log ERROR (''Unexpected error: ''
            @ ''Email configuration is incomplete. Please check your .env file.'')])"
    using t e by blast
  have c: "ImageChecker_init env_down
      = Inr \<lparr> url = ''https://tutor4science.com/'', email_sender = Some ''monitor@example.com'',
              email_password = Some ''app-password'', email_receiver = Some ''owner@example.com'',
              smtp_server = ''smtp.gmail.com'', smtp_port = 587 \<rparr>"
    using t' s p r by blast
  from e a b c show ?thesis
    by (simp add: checker0_def)
qed

subsection \<open>Inline-encoded and small images\<close>

text \<open>
  C5: for a source that starts with \<open>data:image\<close>, \<open>check_image_url\<close> returns
  \<open>(True, None, None)\<close> and leaves the trace as it was, so it makes no fetch, whatever the
  world would have answered; the source is passed to it unchanged, its result does not pass
  the condition of line 114, and the loop goes on with the list it had.
\<close>

theorem inline_image_never_fetched:
  assumes "prefix ''data:image'' img_url"
  shows "is_base64_image img_url
    \<and> check_image_url env img_url w = (Inr (Some True, None, None), w)
    \<and> append_guard (Some True, None, None) = None
    \<and> resolve_url env self img_url = Inr img_url
    \<and> (tag_get img ''src'' [] = img_url \<longrightarrow>
         check_images_loop env self (img # images) b w = check_images_loop env self images b w)"
proof -
  have b64: "is_base64_image img_url"
    using assms by (simp add: is_base64_image_def startswith_def)
  then have chk: "check_image_url env img_url w = (Inr (Some True, None, None), w)"
    by (simp add: check_image_url_def check_image_url_try_def)
  have res: "resolve_url env self img_url = Inr img_url"
    using assms by (simp add: resolve_url_def startswith_any_def startswith_def)
  have ne: "img_url \<noteq> []"
    using assms by auto
  have turn: "check_images_loop env self (img # images) b w = check_images_loop env self images b w"
    if "tag_get img ''src'' [] = img_url"
    using check_images_loop_turn [of img env self img_url w _ w images b] that ne res chk
    by simp
  from b64 chk res turn show ?thesis
    by simp
qed

theorem inline_image_never_fetched_witness:
  "prefix ''data:image'' ''data:image/gif;base64,R0lGODlhAQABAAAAACw=''
   \<and> check_image_url env_down ''data:image/gif;base64,R0lGODlhAQABAAAAACw='' []
       = (Inr (Some True, None, None), [])
   \<and> check_images_loop env_down checker0
       [[''src'' \<mapsto> ''data:image/gif;base64,R0lGODlhAQABAAAAACw='']] [] [] = (Inr [], [])"
proof -
  have p: "prefix ''data:image'' ''data:image/gif;base64,R0lGODlhAQABAAAAACw=''"
    by simp
  have s: "tag_get [''src'' \<mapsto> ''data:image/gif;base64,R0lGODlhAQABAAAAACw=''] ''src'' []
      = ''data:image/gif;base64,R0lGODlhAQABAAAAACw=''"
    by (simp add: tag_get_def)
  note t = inline_image_never_fetched [OF p, of env_down "[]" checker0
      "[''src'' \<mapsto> ''data:image/gif;base64,R0lGODlhAQABAAAAACw='']" "[]" "[]"]
  have a: "check_image_url env_down ''data:image/gif;base64,R0lGODlhAQABAAAAACw='' []
       = (Inr (Some True, None, None), [])"
    using t by blast
  have b: "check_images_loop env_down checker0
       [[''src'' \<mapsto> ''data:image/gif;base64,R0lGODlhAQABAAAAACw='']] [] []
      = check_images_loop env_down checker0 [] [] []"
    using t s by blast
  from p a b show ?thesis
    by simp
qed

text \<open>
  C6: an image that is fetched, answered with 200 and decoded with a width or a height
  below 200 makes \<open>check_image_url\<close> return \<open>None\<close> with the two dimensions measured;
  that result does not pass the condition of line 114, the loop goes on with the list it
  had, and the list that the cycle returns does not hold the image.
\<close>

theorem small_image_ignored:
  assumes "\<not> is_base64_image u"
    and "http_get env w u 10 = Inr r"
    and "status_code r = 200"
    and "image_open env (w @ [HttpGet u 10]) (content r) = Inr img"
    and "size_img img = (width, height)"
    and "width < 200 \<or> height < 200"
  shows "check_image_url env u w = (Inr (None, Some width, Some height), w @ [HttpGet u 10])
    \<and> append_guard (None, Some width, Some height) = None
    \<and> (tag_get t ''src'' [] \<noteq> [] \<and> resolve_url env self (tag_get t ''src'' []) = Inr u \<longrightarrow>
         check_images_loop env self (t # images) b w
           = check_images_loop env self images b (w @ [HttpGet u 10]))
    \<and> (\<forall>w0 bl w'. check_website_images env self w0 = (Inr bl, w') \<longrightarrow> u \<notin> fst ` set bl)"
proof -
  have chk: "check_image_url env u w = (Inr (None, Some width, Some height), w @ [HttpGet u 10])"
    using assms
    by (auto simp: check_image_url_def check_image_url_try_def requests_get_def
        MIN_WIDTH_def MIN_HEIGHT_def)
  have turn: "check_images_loop env self (t # images) b w
           = check_images_loop env self images b (w @ [HttpGet u 10])"
    if "tag_get t ''src'' [] \<noteq> []" "resolve_url env self (tag_get t ''src'' []) = Inr u"
    using that chk by (rule check_images_loop_turn)
  have cycle: "u \<notin> fst ` set bl"
    if "check_website_images env self w0 = (Inr bl, w')" for w0 bl w'
    using check_website_images_result [of env self w0] that by simp
  from chk turn cycle show ?thesis
    by simp
qed

theorem small_image_ignored_witness:
  "check_image_url env_example ''https://tutor4science.com/logo.png'' []
      = (Inr (None, Some 50, Some 50), [HttpGet ''https://tutor4science.com/logo.png'' 10])
   \<and> check_images_loop env_example checker0 [[''src'' \<mapsto> ''/logo.png'']] [] []
      = (Inr [], [HttpGet ''https://tutor4science.com/logo.png'' 10])
   \<and> fst (check_website_images env_example checker0 []) = Inr []"
proof -
  have h1: "\<not> is_base64_image ''https://tutor4science.com/logo.png''"
    by (simp add: is_base64_image_def startswith_def)
  have h2: "http_get env_example [] ''https://tutor4science.com/logo.png'' 10
      = Inr (Response 200 ''logo'' [])"
    by (simp add: env_example_def env_down_def)
  have h3: "status_code (Response 200 ''logo'' []) = 200"
    by simp
  have h4: "image_open env_example ([] @ [HttpGet ''https://tutor4science.com/logo.png'' 10])
       (content (Response 200 ''logo'' [])) = Inr (Image (50, 50) None)"
    by (simp add: env_example_def env_down_def)
  have h5: "size_img (Image (50, 50) None) = (50, 50)"
    by simp
  have h6: "(50::int) < 200 \<or> (50::int) < 200"
    by simp
  have s: "tag_get [''src'' \<mapsto> ''/logo.png''] ''src'' [] \<noteq> []
      \<and> resolve_url env_example checker0 (tag_get [''src'' \<mapsto> ''/logo.png''] ''src'' [])
          = Inr ''https://tutor4science.com/logo.png''"
    by (simp add: run_defs)
  obtain w' where run: "check_website_images env_example checker0 [] = (Inr [], w')"
    by (simp add: run_defs)
  note t = small_image_ignored [OF h1 h2 h3 h4 h5 h6, of "[''src'' \<mapsto> ''/logo.png'']" checker0 "[]" "[]"]
  have a: "check_image_url env_example ''https://tutor4science.com/logo.png'' []
      = (Inr (None, Some 50, Some 50), [] @ [HttpGet ''https://tutor4science.com/logo.png'' 10])"
    using t by blast
  have b: "check_images_loop env_example checker0 [[''src'' \<mapsto> ''/logo.png'']] [] []
      = check_images_loop env_example checker0 [] [] ([] @ [HttpGet ''https://tutor4science.com/logo.png'' 10])"
    using t s by blast
  from a b run show ?thesis
    by simp
qed

subsection \<open>Which addresses are checked\<close>

lemma resolve_url_spec: "resolve_url env self s = spec_resolved_source env (url self) s"
  by (simp add: resolve_url_def spec_resolved_source_def startswith_any_def startswith_def)

lemma fetched_urls_append: "fetched_urls (w @ w') = fetched_urls w @ fetched_urls w'"
  by (simp add: fetched_urls_def)

lemma check_image_url_fetched:
  "fetched_urls (snd (check_image_url env u w))
     = fetched_urls w @ (if prefix ''data:image'' u then [] else [u])"
  by (auto simp: ciu_defs fetched_urls_def is_base64_image_def startswith_def split: ciu_splits)

lemma spec_expected_fetches_Cons:
  "spec_expected_fetches env base (img # images) =
     (if tag_get img ''src'' [] = [] then []
      else case spec_resolved_source env base (tag_get img ''src'' []) of
             Inl e \<Rightarrow> []
           | Inr u \<Rightarrow> if prefix ''data:image'' u then [] else [u])
     @ spec_expected_fetches env base images"
  by (simp add: spec_expected_fetches_def spec_image_sources_def tag_get_def split: option.splits)

lemma check_images_loop_fetched:
  "check_images_loop env self images b w = (Inr b', w') \<Longrightarrow>
     fetched_urls w' = fetched_urls w @ spec_expected_fetches env (url self) images"
proof (induction images arbitrary: b w)
  case Nil
  then show ?case
    by (simp add: spec_expected_fetches_def spec_image_sources_def)
next
  case (Cons img images)
  show ?case
  proof (cases "tag_get img ''src'' [] = []")
    case True
    with Cons.prems have "check_images_loop env self images b w = (Inr b', w')"
      by simp
    from Cons.IH [OF this] True show ?thesis
      by (simp add: spec_expected_fetches_Cons)
  next
    case False
    from Cons.prems False obtain u where u: "resolve_url env self (tag_get img ''src'' []) = Inr u"
      by (auto simp: Let_def split: sum.splits)
    from Cons.prems False u obtain r w1 where r: "check_image_url env u w = (Inr r, w1)"
      by (auto simp: Let_def split: sum.splits prod.splits)
    from Cons.prems have "check_images_loop env self images b w1 = (Inr b', w')"
      by (simp only: check_images_loop_turn [OF False u r])
    from Cons.IH [OF this]
    have "fetched_urls w' = fetched_urls w1 @ spec_expected_fetches env (url self) images" .
    moreover have "fetched_urls w1 = fetched_urls w @ (if prefix ''data:image'' u then [] else [u])"
      using check_image_url_fetched [of env u w] r by simp
    moreover have "spec_resolved_source env (url self) (tag_get img ''src'' []) = Inr u"
      using u by (simp only: resolve_url_spec)
    ultimately show ?thesis
      using False by (simp add: spec_expected_fetches_Cons)
  qed
qed

text \<open>
  C7: a source with none of the prefixes \<open>http://\<close>, \<open>https://\<close>, \<open>data:image\<close> is
  resolved by \<open>urljoin\<close> against the address of the page, a source with one of them is
  left as it is; an element whose source is missing or empty is skipped; for any other
  element the check is called on the resolved address. So a loop that runs to its end has
  fetched the addresses that the specification describes, in document order, and no others.
\<close>

theorem sources_resolved_before_check:
  "(\<forall>s. \<not> prefix ''http://'' s \<and> \<not> prefix ''https://'' s \<and> \<not> prefix ''data:image'' s
        \<longrightarrow> resolve_url env self s = urljoin env (url self) s)
   \<and> (\<forall>s. prefix ''http://'' s \<or> prefix ''https://'' s \<or> prefix ''data:image'' s
        \<longrightarrow> resolve_url env self s = Inr s)
   \<and> (img ''src'' = None \<or> img ''src'' = Some []
        \<longrightarrow> check_images_loop env self (img # images) b w = check_images_loop env self images b w)
   \<and> (\<forall>s u. img ''src'' = Some s \<and> s \<noteq> [] \<and> resolve_url env self s = Inr u
        \<longrightarrow> check_images_loop env self (img # images) b w =
            (case check_image_url env u w of
               (Inl e, w1) \<Rightarrow> (Inl e, w1)
             | (Inr r, w1) \<Rightarrow> check_images_loop env self images b w1))
   \<and> (\<forall>b' w'. check_images_loop env self images b w = (Inr b', w')
        \<longrightarrow> fetched_urls w' = fetched_urls w @ spec_expected_fetches env (url self) images)"
proof -
  have rel: "resolve_url env self s = urljoin env (url self) s"
    if "\<not> prefix ''http://'' s \<and> \<not> prefix ''https://'' s \<and> \<not> prefix ''data:image'' s" for s
    using that by (simp add: resolve_url_def startswith_any_def startswith_def)
  have abs: "resolve_url env self s = Inr s"
    if "prefix ''http://'' s \<or> prefix ''https://'' s \<or> prefix ''data:image'' s" for s
    using that by (auto simp: resolve_url_def startswith_any_def startswith_def)
  have skip: "check_images_loop env self (img # images) b w = check_images_loop env self images b w"
    if "img ''src'' = None \<or> img ''src'' = Some []"
    using that by (auto simp: tag_get_def)
  have call: "check_images_loop env self (img # images) b w =
            (case check_image_url env u w of
               (Inl e, w1) \<Rightarrow> (Inl e, w1)
             | (Inr r, w1) \<Rightarrow> check_images_loop env self images b w1)"
    if "img ''src'' = Some s \<and> s \<noteq> [] \<and> resolve_url env self s = Inr u" for s u
  proof -
    from that have src: "tag_get img ''src'' [] \<noteq> []"
      and res: "resolve_url env self (tag_get img ''src'' []) = Inr u"
      by (simp_all add: tag_get_def)
    obtain x w1 where c: "check_image_url env u w = (x, w1)"
      by (cases "check_image_url env u w")
    show ?thesis
    proof (cases x)
      case (Inl e)
      with src res c show ?thesis
        by (simp add: Let_def)
    next
      case (Inr r)
      with c have "check_image_url env u w = (Inr r, w1)"
        by simp
      from check_images_loop_turn [OF src res this] c Inr show ?thesis
        by simp
    qed
  qed
  from rel abs skip call check_images_loop_fetched [of env self images b w] show ?thesis
    by blast
qed

theorem sources_resolved_before_check_witness:
  "resolve_url env_example checker0 ''/logo.png'' = Inr ''https://tutor4science.com/logo.png''
   \<and> resolve_url env_example checker0 ''https://cdn.example.com/banner.jpg''
       = Inr ''https://cdn.example.com/banner.jpg''
   \<and> check_images_loop env_example checker0 ([''alt'' \<mapsto> ''spacer''] # example_images) [] []
       = check_images_loop env_example checker0 example_images [] []
   \<and> fetched_urls (snd (check_images_loop env_example checker0 example_images [] []))
       = [''https://tutor4science.com/logo.png'', ''https://cdn.example.com/banner.jpg'',
          ''https://tutor4science.com/hero.jpg'']
   \<and> spec_expected_fetches env_example (url checker0) example_images
       = [''https://tutor4science.com/logo.png'', ''https://cdn.example.com/banner.jpg'',
          ''https://tutor4science.com/hero.jpg'']"
proof -
  note t = sources_resolved_before_check [of env_example checker0 "[''alt'' \<mapsto> ''spacer'']"
      example_images "[]" "[]"]
  have h1: "\<not> prefix ''http://'' ''/logo.png'' \<and> \<not> prefix ''https://'' ''/logo.png''
      \<and> \<not> prefix ''data:image'' ''/logo.png''"
    by simp
  have h2: "prefix ''http://'' ''https://cdn.example.com/banner.jpg''
      \<or> prefix ''https://'' ''https://cdn.example.com/banner.jpg''
      \<or> prefix ''data:image'' ''https://cdn.example.com/banner.jpg''"
    by simp
  have h3: "[''alt'' \<mapsto> ''spacer''] ''src'' = None"
    by simp
  obtain b' w' where h4: "check_images_loop env_example checker0 example_images [] [] = (Inr b', w')"
    by (simp add: run_defs)
  have a: "resolve_url env_example checker0 ''/logo.png''
      = urljoin env_example (url checker0) ''/logo.png''"
    using t h1 by blast
  have b: "resolve_url env_example checker0 ''https://cdn.example.com/banner.jpg''
       = Inr ''https://cdn.example.com/banner.jpg''"
    using t h2 by blast
  have c: "check_images_loop env_example checker0 ([''alt'' \<mapsto> ''spacer''] # example_images) [] []
       = check_images_loop env_example checker0 example_images [] []"
    using t h3 by blast
  have d: "fetched_urls w' = fetched_urls [] @ spec_expected_fetches env_example (url checker0) example_images"
    using t h4 by blast
  have e: "spec_expected_fetches env_example (url checker0) example_images
       = [''https://tutor4science.com/logo.png'', ''https://cdn.example.com/banner.jpg'',
          ''https://tutor4science.com/hero.jpg'']"
    by (simp add: spec_expected_fetches_def spec_image_sources_def spec_resolved_source_def
        example_images_def env_example_def env_down_def checker0_def)
  have a': "urljoin env_example (url checker0) ''/logo.png'' = Inr ''https://tutor4science.com/logo.png''"
    by (simp add: env_example_def env_down_def checker0_def)
  from a a' b c d e h4 show ?thesis
    by (simp add: fetched_urls_def)
qed

subsection \<open>The end of a cycle\<close>

lemma check_image_url_extends: "prefix w (snd (check_image_url env u w))"
  by (auto simp: ciu_defs split: ciu_splits)

lemma check_images_loop_extends: "prefix w (snd (check_images_loop env self images b w))"
proof (induction images arbitrary: b w)
  case Nil
  then show ?case by simp
next
  case (Cons img images)
  show ?case
  proof (cases "tag_get img ''src'' [] = []")
    case True
    with Cons show ?thesis by simp
  next
    case False
    show ?thesis
    proof (cases "resolve_url env self (tag_get img ''src'' [])")
      case (Inl e)
      with False show ?thesis by (simp add: Let_def)
    next
      case (Inr u)
      obtain x w1 where c: "check_image_url env u w = (x, w1)"
        by (cases "check_image_url env u w")
      have s: "prefix w w1"
        using check_image_url_extends [of w env u] c by simp
      show ?thesis
      proof (cases x)
        case (Inl e)
        with False Inr c s show ?thesis by (simp add: Let_def)
      next
        case r: (Inr r)
        with c have "check_image_url env u w = (Inr r, w1)" by simp
        from check_images_loop_turn [OF False Inr this] s Cons.IH [of w1 b]
        show ?thesis by (auto intro: prefix_order.trans)
      qed
    qed
  qed
qed

lemma check_website_images_try_returns:
  assumes "check_website_images_try env self w = (Inr bl, w')"
  shows "\<exists>w2. prefix w w2 \<and> w' = w2 @ [Log INFO ''All main content images are rendering properly'']"
proof -
  from assms obtain r where r: "http_get env w (url self) 10 = Inr r"
    by (auto simp: check_website_images_try_def requests_get_def split: sum.splits)
  note f = check_website_images_try_fetched [OF r]
  from assms f obtain images where i: "find_all_img env (text_str r) = Inr images"
    by (auto split: sum.splits)
  obtain x w2 where l: "check_images_loop env self images [] (w @ [HttpGet (url self) 10]) = (x, w2)"
    by (cases "check_images_loop env self images [] (w @ [HttpGet (url self) 10])")
  from assms f i l have w': "w' = w2 @ [Log INFO ''All main content images are rendering properly'']"
    by (auto split: sum.splits)
  have "prefix (w @ [HttpGet (url self) 10]) w2"
    using check_images_loop_extends [of "w @ [HttpGet (url self) 10]" env self images "[]"] l
    by simp
  then have "prefix w w2"
    using append_prefixD by blast
  with w' show ?thesis
    by blast
qed

lemma check_image_url_report:
  "filter is_report (snd (check_image_url env u w)) = filter is_report w"
  by (auto simp: ciu_defs is_report_def split: ciu_splits)

lemma check_images_loop_report:
  "filter is_report (snd (check_images_loop env self images b w)) = filter is_report w"
proof (induction images arbitrary: b w)
  case Nil
  then show ?case by simp
next
  case (Cons img images)
  show ?case
  proof (cases "tag_get img ''src'' [] = []")
    case True
    with Cons show ?thesis by simp
  next
    case False
    show ?thesis
    proof (cases "resolve_url env self (tag_get img ''src'' [])")
      case (Inl e)
      with False show ?thesis by (simp add: Let_def)
    next
      case (Inr u)
      obtain x w1 where c: "check_image_url env u w = (x, w1)"
        by (cases "check_image_url env u w")
      have s: "filter is_report w1 = filter is_report w"
        using check_image_url_report [of env u w] c by simp
      show ?thesis
      proof (cases x)
        case (Inl e)
        with False Inr c s show ?thesis by (simp add: Let_def)
      next
        case r: (Inr r)
        with c have "check_image_url env u w = (Inr r, w1)" by simp
        from check_images_loop_turn [OF False Inr this] s Cons.IH [of b w1]
        show ?thesis by simp
      qed
    qed
  qed
qed

text \<open>
  A \<open>try\<close> block that an exception ends has added fetches and error lines to the trace,
  and nothing else.
\<close>

lemma check_website_images_try_raises:
  assumes "check_website_images_try env self w = (Inl e, w')"
  shows "\<exists>es. w' = w @ es \<and> (\<forall>l m. Log l m \<in> set es \<longrightarrow> l = ERROR)"
proof -
  have ext: "prefix w w' \<and> filter is_report w' = filter is_report w"
  proof (cases "http_get env w (url self) 10")
    case (Inl e')
    with assms show ?thesis
      by (auto simp: check_website_images_try_def requests_get_def is_report_def)
  next
    case (Inr r)
    note f = check_website_images_try_fetched [OF Inr]
    show ?thesis
    proof (cases "find_all_img env (text_str r)")
      case (Inl e')
      with assms f show ?thesis
        by (auto simp: is_report_def)
    next
      case imgs: (Inr images)
      obtain x w2 where l: "check_images_loop env self images [] (w @ [HttpGet (url self) 10]) = (x, w2)"
        by (cases "check_images_loop env self images [] (w @ [HttpGet (url self) 10])")
      from assms f imgs l have w': "w' = w2"
        by (auto split: sum.splits)
      have "prefix (w @ [HttpGet (url self) 10]) w2"
        using check_images_loop_extends [of "w @ [HttpGet (url self) 10]" env self images "[]"] l
        by simp
      then have p: "prefix w w2"
        using append_prefixD by blast
      have "filter is_report w2 = filter is_report (w @ [HttpGet (url self) 10])"
        using check_images_loop_report [of env self images "[]" "w @ [HttpGet (url self) 10]"] l
        by simp
      then have "filter is_report w2 = filter is_report w"
        by (simp add: is_report_def)
      with p w' show ?thesis
        by simp
    qed
  qed
  then obtain es where es: "w' = w @ es"
    by (auto elim: prefixE)
  with ext have "filter is_report es = []"
    by simp
  then have "\<forall>x\<in>set es. \<not> is_report x"
    by (simp add: filter_empty_conv)
  then have "\<forall>l m. Log l m \<in> set es \<longrightarrow> l = ERROR"
    by (auto simp: is_report_def)
  with es show ?thesis
    by blast
qed

text \<open>
  C8, as the code has it: \<open>send_email_notification\<close> returns at once on the empty list; in
  every cycle that runs to the end of its \<open>try\<close> block the list is empty, no call to the
  mail server is made, and the line logged last is the one saying that all main content
  images render. A cycle that an \<open>Exception\<close> ends returns the empty list too and calls no
  mail server, but what it logs is the error and not the info line: every line that such a
  cycle adds to the log is an error line.
\<close>

theorem clean_cycle_logs_info_line:
  "send_email_notification env self [] w = (None, w)
   \<and> (\<forall>bl w'. check_website_images_try env self w = (Inr bl, w') \<longrightarrow>
         bl = [] \<and> check_website_images env self w = (Inr [], w')
         \<and> (\<exists>w2. prefix w w2
               \<and> w' = w2 @ [Log INFO ''All main content images are rendering properly''])
         \<and> filter is_smtp w' = filter is_smtp w)
   \<and> (\<forall>m w'. check_website_images_try env self w = (Inl (Exception m), w') \<longrightarrow>
         check_website_images env self w
           = (Inr [], w' @ [Log ERROR (''Error checking website: '' @ m)])
         \<and> filter is_smtp w' = filter is_smtp w
         \<and> (\<exists>es. w' = w @ es \<and> (\<forall>l m'. Log l m' \<in> set es \<longrightarrow> l = ERROR)))"
proof -
  have none: "send_email_notification env self [] w = (None, w)"
    by (simp add: send_email_notification_def)
  have clean: "bl = [] \<and> check_website_images env self w = (Inr [], w')
         \<and> (\<exists>w2. prefix w w2
               \<and> w' = w2 @ [Log INFO ''All main content images are rendering properly''])
         \<and> filter is_smtp w' = filter is_smtp w"
    if t: "check_website_images_try env self w = (Inr bl, w')" for bl w'
  proof -
    have e: "bl = []"
      using t by (rule check_website_images_try_empty)
    with t have "check_website_images env self w = (Inr [], w')"
      by (simp add: check_website_images_def)
    moreover have "filter is_smtp w' = filter is_smtp w"
      using check_website_images_try_smtp [of env self w] t by simp
    ultimately show ?thesis
      using e check_website_images_try_returns [OF t] by blast
  qed
  have failed: "check_website_images env self w
           = (Inr [], w' @ [Log ERROR (''Error checking website: '' @ m)])
         \<and> filter is_smtp w' = filter is_smtp w
         \<and> (\<exists>es. w' = w @ es \<and> (\<forall>l m'. Log l m' \<in> set es \<longrightarrow> l = ERROR))"
    if t: "check_website_images_try env self w = (Inl (Exception m), w')" for m w'
    using check_website_images_try_smtp [of env self w] t check_website_images_try_raises [OF t]
    by (simp add: check_website_images_def logging_def)
  from none clean failed show ?thesis
    by blast
qed

theorem clean_cycle_logs_info_line_witness:
  "check_website_images_try env_example checker0 []
     = (Inr [], [HttpGet ''https://tutor4science.com/'' 10,
                 HttpGet ''https://tutor4science.com/logo.png'' 10,
                 HttpGet ''https://cdn.example.com/banner.jpg'' 10,
                 HttpGet ''https://tutor4science.com/hero.jpg'' 10,
                 Log INFO ''All main content images are rendering properly''])
   \<and> fst (check_website_images env_example checker0 []) = Inr []
   \<and> filter is_smtp (snd (check_website_images env_example checker0 [])) = []
   \<and> check_website_images_try env_down checker0 []
     = (Inl (Exception ''ConnectionError''), [HttpGet ''https://tutor4science.com/'' 10])
   \<and> check_website_images env_down checker0 []
     = (Inr [], [HttpGet ''https://tutor4science.com/'' 10,
                 Log ERROR ''Error checking website: ConnectionError''])"
proof -
  have h1: "check_website_images_try env_example checker0 []
     = (Inr [], [HttpGet ''https://tutor4science.com/'' 10,
                 HttpGet ''https://tutor4science.com/logo.png'' 10,
                 HttpGet ''https://cdn.example.com/banner.jpg'' 10,
                 HttpGet ''https://tutor4science.com/hero.jpg'' 10,
                 Log INFO ''All main content images are rendering properly''])"
    by (simp add: run_defs)
  have h2: "check_website_images_try env_down checker0 []
     = (Inl (Exception ''ConnectionError''), [HttpGet ''https://tutor4science.com/'' 10])"
    by (simp add: run_defs)
  note t = clean_cycle_logs_info_line [of env_example checker0 "[]"]
  note t' = clean_cycle_logs_info_line [of env_down checker0 "[]"]
  have a: "check_website_images env_example checker0 []
     = (Inr [], [HttpGet ''https://tutor4science.com/'' 10,
                 HttpGet ''https://tutor4science.com/logo.png'' 10,
                 HttpGet ''https://cdn.example.com/banner.jpg'' 10,
                 HttpGet ''https://tutor4science.com/hero.jpg'' 10,
                 Log INFO ''All main content images are rendering properly''])"
    using t h1 by blast
  have b: "filter is_smtp [HttpGet ''https://tutor4science.com/'' 10,
                 HttpGet ''https://tutor4science.com/logo.png'' 10,
                 HttpGet ''https://cdn.example.com/banner.jpg'' 10,
                 HttpGet ''https://tutor4science.com/hero.jpg'' 10,
                 Log INFO ''All main content images are rendering properly''] = filter is_smtp []"
    using t h1 by blast
  have c: "check_website_images env_down checker0 []
     = (Inr [], [HttpGet ''https://tutor4science.com/'' 10]
                 @ [Log ERROR (''Error checking website: '' @ ''ConnectionError'')])"
    using t' h2 by blast
  from h1 h2 a b c show ?thesis
    by simp
qed

text \<open>
  The claim C8 as it is written speaks of every cycle whose list is empty. Here the page
  cannot be fetched: the cycle returns the empty list and sends nothing, and its only log
  line is the error.
\<close>

theorem failed_cycle_logs_no_info_line:
  "check_website_images env_down checker0 []
     = (Inr [], [HttpGet ''https://tutor4science.com/'' 10,
                 Log ERROR ''Error checking website: ConnectionError''])
   \<and> log_lines (snd (check_website_images env_down checker0 []))
     = [(ERROR, ''Error checking website: ConnectionError'')]
   \<and> sent_messages (snd (check_website_images env_down checker0 [])) = []"
  by (simp add: run_defs log_lines_def sent_messages_def)

subsection \<open>The notification\<close>

lemma compose_body_fold:
  "foldl (\<lambda>body r. body @ body_line r) acc broken_images = acc @ concat (map body_line broken_images)"
  by (induction broken_images arbitrary: acc) simp_all

lemma compose_body_lines:
  "compose_body broken_images = body_header @ concat (map body_line broken_images)"
  by (simp add: compose_body_def compose_body_fold)

lemma digit_not_newline:
  assumes "k < 10"
  shows "char_of (48 + k :: nat) \<noteq> CHR 0x0A"
proof
  assume "char_of (48 + k) = CHR 0x0A"
  then have "(of_char (char_of (48 + k)) :: nat) = of_char (CHR 0x0A)"
    by (simp only:)
  then have "(48 + k) mod 256 = 10"
    by simp
  with assms show False
    by simp
qed

lemma str_nat_no_newline: "CHR 0x0A \<notin> set (str_nat n)"
proof (induction n rule: str_nat.induct)
  case (1 n)
  show ?case
  proof (cases "n < 10")
    case True
    then show ?thesis
      using digit_not_newline [of n] by (subst str_nat.simps) auto
  next
    case False
    have "n mod 10 < 10"
      by simp
    then have "char_of (48 + n mod 10) \<noteq> CHR 0x0A"
      by (rule digit_not_newline)
    with False 1 show ?thesis
      by (subst str_nat.simps) auto
  qed
qed

lemma str_int_no_newline: "CHR 0x0A \<notin> set (str_int i)"
  using str_nat_no_newline by (simp add: str_int_def)



lemma sent_messages_append: "sent_messages (w @ w') = sent_messages w @ sent_messages w'"
  by (simp add: sent_messages_def)













text \<open>
  Two more worlds. The server takes the login and refuses the message:
  \<open>send_message\<close> has been called, the error is logged, and no message is sent. Ctrl-C
  during the login: the KeyboardInterrupt leaves \<open>send_email_notification\<close>, and nothing
  is logged.
\<close>

theorem send_refused_no_email:
  "send_email_notification env_send_refused checker0
       [(''https://cdn.example.com/banner.jpg'', 800, 600)] []
     = (None, [SmtpConnect ''smtp.gmail.com'' 587, SmtpStarttls,
               SmtpLogin (Some ''monitor@example.com'') (Some ''app-password''),
               SmtpSendMessage (compose_message checker0
                 [(''https://cdn.example.com/banner.jpg'', 800, 600)]),
               SmtpQuit, Log ERROR ''Error sending email: SMTPRecipientsRefused''])
   \<and> delivered env_send_refused (snd (send_email_notification env_send_refused checker0
       [(''https://cdn.example.com/banner.jpg'', 800, 600)] [])) = []"
  by (simp add: send_email_notification_def smtp_session_def smtp_block_def logging_def
      env_send_refused_def env_down_def checker0_def delivered_def)

theorem login_interrupted_not_logged:
  "send_email_notification env_login_interrupt checker0
       [(''https://cdn.example.com/banner.jpg'', 800, 600)] []
     = (Some KeyboardInterrupt,
        [SmtpConnect ''smtp.gmail.com'' 587, SmtpStarttls,
         SmtpLogin (Some ''monitor@example.com'') (Some ''app-password''), SmtpQuit])"
  by (simp add: send_email_notification_def smtp_session_def smtp_block_def logging_def
      env_login_interrupt_def env_down_def checker0_def)

text \<open>
  An address with a line break in it takes two lines of the body: one record, and four
  line ends with the two of the heading.
\<close>

theorem line_break_in_address:
  "count_list (msg_body (compose_message checker0
       [(''https://cdn.example.com/a'' @ [CHR 0x0A] @ ''b.jpg'', 800, 600)])) (CHR 0x0A) = 4"
  using str_int_no_newline [of 800] str_int_no_newline [of 600]
  by (simp add: compose_message_def compose_body_lines body_header_def body_line_def)

subsection \<open>The outcomes of one image check\<close>




end
